theory Spec2Isabelle
  imports Complex_Main "HOL-Library.Sublist"
begin

section \<open>Python floats\<close>

text \<open>
  A Python \<open>float\<close> is a finite number, an infinity or a NaN. Finite values are kept
  as exact rationals: the rounding of binary64 arithmetic is not modelled, so a product
  or quotient below is the exact one, and the two zeros are one value. What is modelled
  is the part of the float semantics the program's control flow depends on: the special
  values that \<open>float()\<close> accepts and the way comparisons treat them.
\<close>

datatype pyfloat = Fin rat | PInf | NInf | NaN

text \<open>
  Comparison follows IEEE 754: NaN is unordered (every comparison with it is false),
  the two zeros are equal, the infinities lie beyond every finite value.
\<close>

fun fkey :: "pyfloat \<Rightarrow> (int \<times> rat) option" where
  "fkey NaN = None"
| "fkey NInf = Some (- 1, 0)"
| "fkey (Fin r) = Some (0, r)"
| "fkey PInf = Some (1, 0)"

definition flt :: "pyfloat \<Rightarrow> pyfloat \<Rightarrow> bool" where
  "flt a b = (case (fkey a, fkey b) of
                (Some (i, r), Some (j, s)) \<Rightarrow> i < j \<or> (i = j \<and> r < s)
              | _ \<Rightarrow> False)"

definition fgt :: "pyfloat \<Rightarrow> pyfloat \<Rightarrow> bool" where
  "fgt a b = flt b a"

definition feq :: "pyfloat \<Rightarrow> pyfloat \<Rightarrow> bool" where
  "feq a b = (case (fkey a, fkey b) of (Some x, Some y) \<Rightarrow> x = y | _ \<Rightarrow> False)"

definition fle :: "pyfloat \<Rightarrow> pyfloat \<Rightarrow> bool" where
  "fle a b = (flt a b \<or> feq a b)"

text \<open>True division of two Python ints, \<open>a / b\<close> with \<open>b \<noteq> 0\<close>.\<close>

definition int_truediv :: "nat \<Rightarrow> nat \<Rightarrow> pyfloat" where
  "int_truediv a b = Fin (of_nat a / of_nat b)"


section \<open>Chart detection (services/chart_detector.py)\<close>

text \<open>
  What \<open>_analyze_chart_characteristics\<close> reads off the file at \<open>image_path\<close>: the shape of
  the RGB array, the number of entries \<open>getcolors\<close> reports for the 100x100 downsample
  (the resampling is PIL's and is taken as given), and the grey-level array of
  \<open>img.convert('L')\<close>, one list per row. A file that does not decode is \<open>None\<close>.
\<close>

record decoded_image =
  img_width :: nat
  img_height :: nat
  unique_colors :: nat
  gray_array :: "nat list list"

record detection =
  det_label :: string
  det_confidence :: pyfloat
  det_bbox :: "pyfloat list"

text \<open>
  The result dictionaries. \<open>detections = None\<close> is a dictionary without the key
  \<open>"detections"\<close>.
\<close>

record verdict =
  is_chart :: bool
  chart_type :: string
  confidence :: pyfloat
  detections :: "detection list option"

text \<open>A raised exception: its class name and \<open>str(e)\<close>.\<close>

datatype exn = Exn (exn_class: string) (exn_str: string)

definition absdiff :: "nat \<Rightarrow> nat \<Rightarrow> nat" where
  "absdiff a b = (if a \<le> b then b - a else a - b)"

text \<open>\<open>np.abs(np.diff(g, axis=0))\<close>: differences of consecutive rows.\<close>

fun edges_h :: "nat list list \<Rightarrow> nat list list" where
  "edges_h (r # s # rs) = map2 absdiff r s # edges_h (s # rs)"
| "edges_h _ = []"

text \<open>\<open>np.abs(np.diff(g, axis=1))\<close>: differences of consecutive entries of each row.\<close>

fun row_diff :: "nat list \<Rightarrow> nat list" where
  "row_diff (a # b # xs) = absdiff a b # row_diff (b # xs)"
| "row_diff _ = []"

definition edges_v :: "nat list list \<Rightarrow> nat list list" where
  "edges_v g = map row_diff g"

text \<open>
  \<open>np.sum(edges > 50) / edges.size\<close>. On an array without entries numpy divides zero by
  zero, which is NaN (with a warning, not an exception).
\<close>

definition edge_density :: "nat list list \<Rightarrow> pyfloat" where
  "edge_density edges =
     (let count = length (filter (\<lambda>d. 50 < d) (concat edges));
          size_e = length (concat edges)
      in if size_e = 0 then NaN else int_truediv count size_e)"

definition analyze_chart_characteristics :: "decoded_image option \<Rightarrow> verdict" where
  "analyze_chart_characteristics file =
     (case file of
        None \<Rightarrow> \<lparr>is_chart = False, chart_type = ''image'', confidence = Fin 0,
                 detections = None\<rparr>
      | Some img \<Rightarrow>
         (let aspect_ratio = (if 0 < img_height img
                              then int_truediv (img_width img) (img_height img) else Fin 1);
              v1 = (if unique_colors img < 50 \<and> flt (Fin (1 / 2)) aspect_ratio
                       \<and> flt aspect_ratio (Fin (5 / 2))
                    then (True, ''chart'', Fin (6 / 10))
                    else if unique_colors img < 100 \<and> flt (Fin (3 / 10)) aspect_ratio
                       \<and> flt aspect_ratio (Fin 3)
                    then (True, ''graph'', Fin (5 / 10))
                    else (False, ''image'', Fin (3 / 10)));
              h_lines = edge_density (edges_h (gray_array img));
              v_lines = edge_density (edges_v (gray_array img));
              v2 = (if fgt h_lines (Fin (5 / 100)) \<and> fgt v_lines (Fin (5 / 100))
                    then (True, ''table'', Fin (7 / 10)) else v1)
          in case v2 of (c, t, p) \<Rightarrow>
               \<lparr>is_chart = c, chart_type = t, confidence = p, detections = None\<rparr>))"

definition fallback_detection :: "decoded_image option \<Rightarrow> verdict" where
  "fallback_detection file = analyze_chart_characteristics file"

text \<open>
  \<open>ChartDetector.detect\<close>. \<open>model\<close> is \<open>self.model\<close>: \<open>None\<close>, or the object detector
  together with the loop that turns its boxes into dictionaries; either may raise.
\<close>

definition detect ::
  "(decoded_image option \<Rightarrow> exn + detection list) option \<Rightarrow> decoded_image option \<Rightarrow> verdict"
where
  "detect model file =
     (case model of
        None \<Rightarrow> fallback_detection file
      | Some m \<Rightarrow>
         (case m file of
            Inl e \<Rightarrow> fallback_detection file
          | Inr dets \<Rightarrow>
             (let chart_analysis = analyze_chart_characteristics file
              in \<lparr>is_chart = is_chart chart_analysis,
                  chart_type = chart_type chart_analysis,
                  confidence = confidence chart_analysis,
                  detections = Some dets\<rparr>)))"


section \<open>Python strings and \<open>float()\<close>\<close>

text \<open>
  Strings are lists of 8-bit characters, so the model covers text in the Latin-1 range.
  \<open>py_isspace\<close> is \<open>str.isspace\<close> on one character there, \<open>py_strip\<close> is \<open>str.strip()\<close>,
  \<open>py_remove c\<close> is \<open>str.replace(c, '')\<close> for a one-character \<open>c\<close>.
\<close>

definition py_isspace :: "char \<Rightarrow> bool" where
  "py_isspace c = (let n = (of_char c :: nat)
                   in (9 \<le> n \<and> n \<le> 13) \<or> (28 \<le> n \<and> n \<le> 32) \<or> n = 133 \<or> n = 160)"

definition py_strip :: "string \<Rightarrow> string" where
  "py_strip s = rev (dropWhile py_isspace (rev (dropWhile py_isspace s)))"

definition py_remove :: "char \<Rightarrow> string \<Rightarrow> string" where
  "py_remove c s = filter (\<lambda>x. x \<noteq> c) s"

definition is_digit :: "char \<Rightarrow> bool" where
  "is_digit c = (48 \<le> (of_char c :: nat) \<and> (of_char c :: nat) \<le> 57)"

definition digits_val :: "string \<Rightarrow> nat" where
  "digits_val ds = foldl (\<lambda>n c. 10 * n + (of_char c - 48)) 0 ds"

definition ascii_lower :: "char \<Rightarrow> char" where
  "ascii_lower c = (let n = (of_char c :: nat)
                    in if 65 \<le> n \<and> n \<le> 90 then char_of (n + 32) else c)"

definition pow10 :: "int \<Rightarrow> rat" where
  "pow10 k = (if 0 \<le> k then 10 ^ nat k else 1 / 10 ^ nat (- k))"

text \<open>
  \<open>float(s)\<close> on a string: surrounding whitespace is dropped; an underscore is accepted
  only between two digits and is then ignored; what remains is an optional sign followed
  by \<open>inf\<close>, \<open>infinity\<close> or \<open>nan\<close> in any case, or by a decimal number with at least one
  digit and an optional exponent. Anything else raises \<open>ValueError\<close>, which is \<open>None\<close>.
\<close>

fun underscores_ok :: "char \<Rightarrow> string \<Rightarrow> bool" where
  "underscores_ok prev [] = (prev \<noteq> CHR ''_'')"
| "underscores_ok prev (c # cs) =
     ((if c = CHR ''_'' then is_digit prev
       else if prev = CHR ''_'' then is_digit c else True)
      \<and> underscores_ok c cs)"

definition parse_exponent :: "string \<Rightarrow> int option" where
  "parse_exponent s =
     (case s of
        [] \<Rightarrow> Some 0
      | c # r \<Rightarrow>
         if c = CHR ''e'' \<or> c = CHR ''E'' then
           (let (neg, ds) = (case r of
                               [] \<Rightarrow> (False, [])
                             | d # t \<Rightarrow> if d = CHR ''-'' then (True, t)
                                        else if d = CHR ''+'' then (False, t) else (False, r))
            in if ds \<noteq> [] \<and> list_all is_digit ds
               then Some (if neg then - int (digits_val ds) else int (digits_val ds))
               else None)
         else None)"

definition parse_abs :: "string \<Rightarrow> pyfloat option" where
  "parse_abs s =
     (let l = map ascii_lower s
      in if l = ''inf'' \<or> l = ''infinity'' then Some PInf
         else if l = ''nan'' then Some NaN
         else
           (let ip = takeWhile is_digit s;
                r1 = dropWhile is_digit s;
                (fp, r2) = (case r1 of
                              [] \<Rightarrow> ([], [])
                            | c # t \<Rightarrow> if c = CHR ''.''
                                       then (takeWhile is_digit t, dropWhile is_digit t)
                                       else ([], r1))
            in if ip = [] \<and> fp = [] then None
               else (case parse_exponent r2 of
                       None \<Rightarrow> None
                     | Some e \<Rightarrow>
                        Some (Fin (of_nat (digits_val (ip @ fp)) * pow10 (e - int (length fp)))))))"

fun fneg :: "pyfloat \<Rightarrow> pyfloat" where
  "fneg (Fin r) = Fin (- r)"
| "fneg PInf = NInf"
| "fneg NInf = PInf"
| "fneg NaN = NaN"

definition parse_signed :: "string \<Rightarrow> pyfloat option" where
  "parse_signed s =
     (case s of
        [] \<Rightarrow> None
      | c # r \<Rightarrow> if c = CHR ''-'' then map_option fneg (parse_abs r)
                 else if c = CHR ''+'' then parse_abs r
                 else parse_abs s)"

definition py_float :: "string \<Rightarrow> pyfloat option" where
  "py_float s =
     (let t = py_strip s
      in if underscores_ok (CHR 0x00) t then parse_signed (py_remove (CHR ''_'') t) else None)"


section \<open>Text structuring (services/ocr_service.py)\<close>

record textbox =
  box_text :: string
  box_confidence :: rat
  x_center :: rat
  y_center :: rat

record structured =
  title :: "string option"
  x_axis :: "string option"
  y_axis :: "string option"
  values_list :: "string list"
  legends :: "string list"

text \<open>
  \<open>_is_numeric\<close>: the four \<open>replace\<close> calls, \<open>strip\<close>, then \<open>float\<close> in a \<open>try\<close>.
\<close>

definition is_numeric :: "string \<Rightarrow> bool" where
  "is_numeric txt =
     (let cleaned = py_strip (py_remove (CHR ''-'') (py_remove (CHR ''$'')
                      (py_remove (CHR ''%'') (py_remove (CHR '','') txt))))
      in py_float cleaned \<noteq> None)"

fun list_min :: "rat list \<Rightarrow> rat" where
  "list_min [] = 0"
| "list_min (x # xs) = foldl min x xs"

fun list_max :: "rat list \<Rightarrow> rat" where
  "list_max [] = 0"
| "list_max (x # xs) = foldl max x xs"

text \<open>
  The bounds computed before the loop, and the normalised position computed for each
  box inside it:
  \<^verbatim>\<open>x_range = max_x - min_x if max_x > min_x else 1\<close>,
  \<^verbatim>\<open>x_pos = (box["x_center"] - min_x) / x_range if x_range > 0 else 0.5\<close>,
  and the same for \<open>y\<close>. The lists are not empty where these are used.
\<close>

definition axis_range :: "rat list \<Rightarrow> rat" where
  "axis_range cs = (if list_min cs < list_max cs then list_max cs - list_min cs else 1)"

definition axis_pos :: "rat list \<Rightarrow> rat \<Rightarrow> rat" where
  "axis_pos cs c = (if 0 < axis_range cs then (c - list_min cs) / axis_range cs else 1 / 2)"

definition x_pos :: "textbox list \<Rightarrow> textbox \<Rightarrow> rat" where
  "x_pos boxes box = axis_pos (map x_center boxes) (x_center box)"

definition y_pos :: "textbox list \<Rightarrow> textbox \<Rightarrow> rat" where
  "y_pos boxes box = axis_pos (map y_center boxes) (y_center box)"

definition longer :: "string option \<Rightarrow> string \<Rightarrow> bool" where
  "longer cur txt = (case cur of None \<Rightarrow> True | Some t \<Rightarrow> length t < length txt)"

text \<open>One iteration of the loop over \<open>boxes\<close>: the \<open>if\<close>/\<open>elif\<close> chain.\<close>

definition structure_step :: "textbox list \<Rightarrow> structured \<Rightarrow> textbox \<Rightarrow> structured" where
  "structure_step boxes acc box =
     (let txt = py_strip (box_text box);
          yp = y_pos boxes box;
          xp = x_pos boxes box
      in if yp < 2 / 10 \<and> 3 / 10 < xp \<and> xp < 7 / 10 then
           (if longer (title acc) txt then acc\<lparr>title := Some txt\<rparr> else acc)
         else if 8 / 10 < yp \<and> 3 / 10 < xp \<and> xp < 7 / 10 then
           (if longer (x_axis acc) txt then acc\<lparr>x_axis := Some txt\<rparr> else acc)
         else if xp < 15 / 100 \<and> 2 / 10 < yp \<and> yp < 8 / 10 then
           (if longer (y_axis acc) txt then acc\<lparr>y_axis := Some txt\<rparr> else acc)
         else if is_numeric txt then acc\<lparr>values_list := values_list acc @ [txt]\<rparr>
         else if 7 / 10 < xp \<or> (7 / 10 < yp \<and> 5 / 10 < xp) then
           acc\<lparr>legends := legends acc @ [txt]\<rparr>
         else acc)"

definition empty_structured :: structured where
  "empty_structured = \<lparr>title = None, x_axis = None, y_axis = None, values_list = [], legends = []\<rparr>"

definition structure_chart_text :: "textbox list \<Rightarrow> structured" where
  "structure_chart_text boxes =
     (if boxes = [] then empty_structured
      else foldl (structure_step boxes) empty_structured boxes)"



text \<open>
  Two measures on the result dictionary: how many of its five entries differ between two
  states of the loop, and how many box texts it holds.
\<close>

definition changed_fields :: "structured \<Rightarrow> structured \<Rightarrow> nat" where
  "changed_fields a b =
     (if title a = title b then 0 else 1) + (if x_axis a = x_axis b then 0 else 1)
     + (if y_axis a = y_axis b then 0 else 1)
     + (if values_list a = values_list b then 0 else 1)
     + (if legends a = legends b then 0 else 1)"

definition filled :: "structured \<Rightarrow> nat" where
  "filled a =
     (if title a = None then 0 else 1) + (if x_axis a = None then 0 else 1)
     + (if y_axis a = None then 0 else 1) + length (values_list a) + length (legends a)"

definition two_boxes_one_column :: "textbox list" where
  "two_boxes_one_column =
     [\<lparr>box_text = ''Revenue'', box_confidence = 1, x_center = 5, y_center = 0\<rparr>,
      \<lparr>box_text = ''Year'', box_confidence = 1, x_center = 5, y_center = 10\<rparr>]"


definition lone_box :: textbox where
  "lone_box = \<lparr>box_text = ''Sales'', box_confidence = 1, x_center = 5, y_center = 5\<rparr>"


section \<open>Deterministic fallback of the insight generator (services/inference_service.py)\<close>

text \<open>
  The label of an extremum is \<open>str(max_val)\<close>, Python's shortest decimal form of the
  float. It is kept as the symbolic value \<open>Str_of v\<close>: which float it is the string of.
\<close>

datatype label = Str_of pyfloat

record point =
  pt_value :: pyfloat
  pt_label :: label

record insight =
  trend :: string
  max_point :: "point option"
  min_point :: "point option"
  correlations :: "string list"
  anomalies :: "string list"
  summary :: string

text \<open>The dictionary returned by \<open>extract_text\<close>; it always has its \<open>structured\<close> entry.\<close>

record ocr_result =
  raw_text :: "string list"
  ocr_boxes :: "textbox list"
  ocr_structured :: structured

text \<open>
  The builtins \<open>max\<close> and \<open>min\<close> on a list: the first element, replaced by each later one
  that compares greater (smaller). They are applied to lists of at least two elements.
\<close>

fun py_max :: "pyfloat list \<Rightarrow> pyfloat" where
  "py_max [] = NaN"
| "py_max (x # xs) = foldl (\<lambda>m v. if fgt v m then v else m) x xs"

fun py_min :: "pyfloat list \<Rightarrow> pyfloat" where
  "py_min [] = NaN"
| "py_min (x # xs) = foldl (\<lambda>m v. if flt v m then v else m) x xs"

text \<open>Decimal digits of a natural number, as an f-string prints \<open>len(values)\<close>.\<close>

fun dec_str :: "nat \<Rightarrow> string" where
  "dec_str n = (if n < 10 then [char_of (48 + n)]
                else dec_str (n div 10) @ [char_of (48 + n mod 10)])"

declare dec_str.simps [simp del]

text \<open>
  The loop that collects \<open>numeric_values\<close>: every value that \<open>float\<close> accepts after
  \<open>,\<close>, \<open>%\<close> and \<open>$\<close> are removed; the others are skipped by the bare \<open>except\<close>.
\<close>

definition numeric_values :: "string list \<Rightarrow> pyfloat list" where
  "numeric_values vals =
     List.map_filter
       (\<lambda>v. py_float (py_remove (CHR ''$'') (py_remove (CHR ''%'') (py_remove (CHR '','') v))))
       vals"

text \<open>
  \<open>_fallback_inference\<close>. The title in the summary is \<open>structured.get('title', 'Unknown')\<close>;
  the key is always present, so a missing title prints as \<open>None\<close>.
\<close>

definition fallback_inference :: "ocr_result \<Rightarrow> insight" where
  "fallback_inference ocr_data =
     (let structured = ocr_structured ocr_data;
          vals = values_list structured;
          nums = numeric_values vals;
          (trend_v, max_p, min_p) =
            (if 2 \<le> length nums then
               (if fgt (last nums) (hd nums) then ''increasing''
                else if flt (last nums) (hd nums) then ''decreasing''
                else ''stable'',
                Some \<lparr>pt_value = py_max nums, pt_label = Str_of (py_max nums)\<rparr>,
                Some \<lparr>pt_value = py_min nums, pt_label = Str_of (py_min nums)\<rparr>)
             else (''unknown'', None, None))
      in \<lparr>trend = trend_v, max_point = max_p, min_point = min_p,
          correlations = [], anomalies = [],
          summary = ''Chart with title '' @ [CHR 0x27]
            @ (case title structured of None \<Rightarrow> ''None'' | Some t \<Rightarrow> t) @ [CHR 0x27]
            @ '' showing '' @ dec_str (length vals)
            @ '' data points. Trend appears to be '' @ trend_v @ ''.''\<rparr>)"

definition ocr_with_values :: "string list \<Rightarrow> ocr_result" where
  "ocr_with_values vs = \<lparr>raw_text = vs, ocr_boxes = [],
     ocr_structured = \<lparr>title = None, x_axis = None, y_axis = None, values_list = vs, legends = []\<rparr>\<rparr>"


section \<open>Job orchestration (routers/pdf_router.py, routers/image_router.py)\<close>

text \<open>
  The stages the background tasks call are parameters (\<open>services\<close>): each returns its
  value or the exception it raised. \<open>now\<close> is \<open>datetime.now()\<close>, \<open>new_uuid\<close> is
  \<open>uuid.uuid4().hex\<close>. The state is the shared dictionary \<open>processing_status\<close>, together
  with \<open>progress_log\<close>, a history of every progress value assigned, with the task it was
  assigned for; the log is not in the program, it records what the program writes.
  Validation errors of the pydantic constructors are not modelled: the records are
  well-typed by construction.
\<close>

record ocr_data =
  od_title :: "string option"
  od_x_axis :: "string option"
  od_y_axis :: "string option"
  od_values :: "string list"
  od_legends :: "string list"

record image_extraction =
  ie_image_id :: string
  ie_image_path :: string
  ie_type :: string
  ie_page_number :: nat
  ie_ocr_data :: "ocr_data option"
  ie_inference :: "insight option"

record job_result =
  pdf_name :: string
  processed_at :: nat
  total_pages :: nat
  extracted_text :: string
  extractions :: "image_extraction list"

record job_status =
  job_state :: string
  job_message :: string
  job_progress :: nat
  job_result :: "job_result option"
  job_extraction_id :: "string option"

record pstate =
  processing_status :: "string \<rightharpoonup> job_status"
  progress_log :: "(string \<times> nat) list"

record image_info =
  image_id :: string
  image_path :: string
  page_number :: nat

record pdf_content =
  pc_total_pages :: nat
  pc_text :: string
  pc_images :: "image_info list"

record services =
  extract_pdf :: "string \<Rightarrow> exn + pdf_content"
  copy_file :: "string \<Rightarrow> string \<Rightarrow> exn + unit"
  detect_chart :: "string \<Rightarrow> exn + verdict"
  extract_chart_text :: "string \<Rightarrow> exn + ocr_result"
  generate_inference :: "string \<Rightarrow> string \<Rightarrow> ocr_result \<Rightarrow> string \<Rightarrow> exn + insight"
  save_result :: "job_result \<Rightarrow> exn + string"
  now :: nat
  new_uuid :: string
  images_dir :: string

text \<open>
  A statement of a background task: from a state to a value or a raised exception, and
  the state it leaves. Assigning to \<open>processing_status[task_id][...]\<close> raises \<open>KeyError\<close>
  when the task has no entry; \<open>str\<close> of a \<open>KeyError\<close> is the \<open>repr\<close> of the key, which for
  the hexadecimal task identifiers is the key in single quotes.
\<close>

type_synonym 'a action = "pstate \<Rightarrow> (exn + 'a) \<times> pstate"

definition key_error :: "string \<Rightarrow> exn" where
  "key_error k = Exn ''KeyError'' ([CHR 0x27] @ k @ [CHR 0x27])"

definition set_message :: "string \<Rightarrow> string \<Rightarrow> unit action" where
  "set_message task_id msg s =
     (case processing_status s task_id of
        None \<Rightarrow> (Inl (key_error task_id), s)
      | Some entry \<Rightarrow>
         (Inr (), s\<lparr>processing_status :=
                     (processing_status s)(task_id \<mapsto> entry\<lparr>job_message := msg\<rparr>)\<rparr>))"

definition set_progress :: "string \<Rightarrow> nat \<Rightarrow> unit action" where
  "set_progress task_id p s =
     (case processing_status s task_id of
        None \<Rightarrow> (Inl (key_error task_id), s)
      | Some entry \<Rightarrow>
         (Inr (), s\<lparr>processing_status :=
                     (processing_status s)(task_id \<mapsto> entry\<lparr>job_progress := p\<rparr>),
                   progress_log := progress_log s @ [(task_id, p)]\<rparr>))"

definition put_entry :: "string \<Rightarrow> job_status \<Rightarrow> pstate \<Rightarrow> pstate" where
  "put_entry task_id entry s =
     s\<lparr>processing_status := (processing_status s)(task_id \<mapsto> entry),
       progress_log := progress_log s @ [(task_id, job_progress entry)]\<rparr>"

definition bind :: "'a action \<Rightarrow> ('a \<Rightarrow> 'b action) \<Rightarrow> 'b action" where
  "bind m f s = (case m s of (Inl e, s') \<Rightarrow> (Inl e, s') | (Inr a, s') \<Rightarrow> f a s')"

definition call :: "exn + 'a \<Rightarrow> 'a action" where
  "call r s = (r, s)"

definition failed_status :: "exn \<Rightarrow> job_status" where
  "failed_status e = \<lparr>job_state = ''failed'', job_message = ''Error: '' @ exn_str e,
                       job_progress = 0, job_result = None, job_extraction_id = None\<rparr>"

definition completed_status :: "job_result \<Rightarrow> string \<Rightarrow> job_status" where
  "completed_status r saved_id =
     \<lparr>job_state = ''completed'', job_message = ''Processing complete'', job_progress = 100,
      job_result = Some r, job_extraction_id = Some saved_id\<rparr>"

definition to_ocr_data :: "ocr_result \<Rightarrow> ocr_data" where
  "to_ocr_data r = \<lparr>od_title = title (ocr_structured r), od_x_axis = x_axis (ocr_structured r),
                     od_y_axis = y_axis (ocr_structured r),
                     od_values = values_list (ocr_structured r),
                     od_legends = legends (ocr_structured r)\<rparr>"

text \<open>\<^verbatim>\<open>progress = 30 + int((idx + 1) / total_images * 60)\<close>\<close>

definition progress_after :: "nat \<Rightarrow> nat \<Rightarrow> nat" where
  "progress_after idx total_images =
     30 + nat \<lfloor>(of_nat (idx + 1) / of_nat total_images :: rat) * 60\<rfloor>"

text \<open>The body of the loop over \<open>extraction["images"]\<close>, up to the progress update.\<close>

definition process_region ::
  "services \<Rightarrow> string \<Rightarrow> pdf_content \<Rightarrow> nat \<Rightarrow> nat \<Rightarrow> image_info \<Rightarrow> image_extraction action"
where
  "process_region svc task_id extraction total_images idx img_info =
     bind (call (detect_chart svc (image_path img_info))) (\<lambda>detection.
       if is_chart detection then
         bind (set_message task_id (''Analyzing chart '' @ dec_str (idx + 1) @ ''/''
                                     @ dec_str total_images @ ''...'')) (\<lambda>_.
         bind (call (extract_chart_text svc (image_path img_info))) (\<lambda>ocr_res.
         bind (call (generate_inference svc (image_path img_info) (chart_type detection)
                       ocr_res (take 2000 (pc_text extraction)))) (\<lambda>inference.
         call (Inr \<lparr>ie_image_id = image_id img_info, ie_image_path = image_path img_info,
                    ie_type = chart_type detection, ie_page_number = page_number img_info,
                    ie_ocr_data = Some (to_ocr_data ocr_res),
                    ie_inference = Some inference\<rparr>))))
       else
         call (Inr \<lparr>ie_image_id = image_id img_info, ie_image_path = image_path img_info,
                    ie_type = ''image'', ie_page_number = page_number img_info,
                    ie_ocr_data = None, ie_inference = None\<rparr>))"

fun process_images ::
  "services \<Rightarrow> string \<Rightarrow> pdf_content \<Rightarrow> nat \<Rightarrow> nat \<Rightarrow> image_info list
   \<Rightarrow> image_extraction list \<Rightarrow> image_extraction list action"
where
  "process_images svc task_id extraction total_images idx [] acc s = (Inr acc, s)"
| "process_images svc task_id extraction total_images idx (img_info # rest) acc s =
     (case process_region svc task_id extraction total_images idx img_info s of
        (Inl e, s1) \<Rightarrow> (Inl e, s1)
      | (Inr ie, s1) \<Rightarrow>
         (case set_progress task_id (progress_after idx total_images) s1 of
            (Inl e, s2) \<Rightarrow> (Inl e, s2)
          | (Inr u, s2) \<Rightarrow>
             process_images svc task_id extraction total_images (Suc idx) rest (acc @ [ie]) s2))"

text \<open>The \<open>try\<close> block of \<open>process_pdf\<close>, then the whole task with its \<open>except Exception\<close>.\<close>

definition process_pdf_try :: "services \<Rightarrow> string \<Rightarrow> string \<Rightarrow> string \<Rightarrow> unit action" where
  "process_pdf_try svc task_id file_path filename =
     bind (set_message task_id ''Extracting text and images from PDF...'') (\<lambda>_.
     bind (set_progress task_id 10) (\<lambda>_.
     bind (call (extract_pdf svc file_path)) (\<lambda>extraction.
     bind (set_progress task_id 30) (\<lambda>_.
     bind (set_message task_id (''Found '' @ dec_str (length (pc_images extraction))
                                 @ '' images, analyzing...'')) (\<lambda>_.
     bind (process_images svc task_id extraction (length (pc_images extraction)) 0
             (pc_images extraction) []) (\<lambda>image_extractions.
     bind (set_message task_id ''Saving results...'') (\<lambda>_.
     bind (set_progress task_id 95) (\<lambda>_.
     bind (call (save_result svc
                   \<lparr>pdf_name = filename, processed_at = now svc,
                    total_pages = pc_total_pages extraction,
                    extracted_text = pc_text extraction,
                    extractions = image_extractions\<rparr>)) (\<lambda>saved_id.
     (\<lambda>s. (Inr (), put_entry task_id
               (completed_status
                  \<lparr>pdf_name = filename, processed_at = now svc,
                   total_pages = pc_total_pages extraction,
                   extracted_text = pc_text extraction,
                   extractions = image_extractions\<rparr> saved_id) s)))))))))))"

definition process_pdf :: "services \<Rightarrow> string \<Rightarrow> string \<Rightarrow> string \<Rightarrow> unit action" where
  "process_pdf svc task_id file_path filename s =
     (case process_pdf_try svc task_id file_path filename s of
        (Inr u, s') \<Rightarrow> (Inr (), s')
      | (Inl e, s') \<Rightarrow> (Inr (), put_entry task_id (failed_status e) s'))"

text \<open>
  Binding of keyword arguments: a call that passes a keyword the function has no
  parameter for raises \<open>TypeError\<close> before the body runs. \<open>generate_chart_inference\<close> has
  the parameters \<open>image_path\<close>, \<open>chart_type\<close>, \<open>ocr_data\<close>, \<open>pdf_context\<close>; \<open>process_image\<close>
  calls it with three positional arguments and \<open>context=""\<close>.
\<close>

definition generate_chart_inference_params :: "string list" where
  "generate_chart_inference_params = [''image_path'', ''chart_type'', ''ocr_data'', ''pdf_context'']"

definition unexpected_keyword :: "string list \<Rightarrow> string list \<Rightarrow> string option" where
  "unexpected_keyword params keywords = find (\<lambda>k. k \<notin> set params) keywords"

definition type_error_unexpected :: "string \<Rightarrow> string \<Rightarrow> exn" where
  "type_error_unexpected fname k =
     Exn ''TypeError'' (fname @ ''() got an unexpected keyword argument ''
                        @ [CHR 0x27] @ k @ [CHR 0x27])"

definition chart_branch ::
  "services \<Rightarrow> string \<Rightarrow> string \<Rightarrow> string \<Rightarrow> verdict \<Rightarrow> image_extraction list action"
where
  "chart_branch svc task_id img_id target_path detection =
     (if is_chart detection then
        bind (set_message task_id ''Chart detected, running OCR and analysis...'') (\<lambda>_.
        bind (set_progress task_id 50) (\<lambda>_.
        bind (call (extract_chart_text svc target_path)) (\<lambda>ocr_res.
        bind (call (case unexpected_keyword generate_chart_inference_params [''context''] of
                      Some k \<Rightarrow> Inl (type_error_unexpected ''generate_chart_inference'' k)
                    | None \<Rightarrow> generate_inference svc target_path (chart_type detection)
                                ocr_res [])) (\<lambda>inference.
        call (Inr [\<lparr>ie_image_id = img_id, ie_image_path = target_path,
                    ie_type = chart_type detection, ie_page_number = 1,
                    ie_ocr_data = Some (to_ocr_data ocr_res),
                    ie_inference = Some inference\<rparr>])))))
      else
        bind (set_message task_id ''Processing as generic image...'') (\<lambda>_. call (Inr [])))"

definition image_result :: "services \<Rightarrow> string \<Rightarrow> string \<Rightarrow> string \<Rightarrow> image_extraction list \<Rightarrow> job_result"
where
  "image_result svc img_id target_path filename found =
     \<lparr>pdf_name = filename, processed_at = now svc, total_pages = 1, extracted_text = [],
      extractions = (if found = []
                     then [\<lparr>ie_image_id = img_id, ie_image_path = target_path,
                            ie_type = ''image'', ie_page_number = 1,
                            ie_ocr_data = None, ie_inference = None\<rparr>]
                     else found)\<rparr>"

definition target_of :: "services \<Rightarrow> string \<Rightarrow> string" where
  "target_of svc ext = images_dir svc @ ''/'' @ new_uuid svc @ ''.'' @ ext"

definition process_image_try :: "services \<Rightarrow> string \<Rightarrow> string \<Rightarrow> string \<Rightarrow> string \<Rightarrow> unit action"
where
  "process_image_try svc task_id file_path ext filename =
     bind (set_message task_id ''Analyzing image content...'') (\<lambda>_.
     bind (set_progress task_id 20) (\<lambda>_.
     bind (call (copy_file svc file_path (target_of svc ext))) (\<lambda>_.
     bind (call (detect_chart svc (target_of svc ext))) (\<lambda>detection.
     bind (chart_branch svc task_id (new_uuid svc) (target_of svc ext) detection) (\<lambda>found.
     bind (set_message task_id ''Saving results...'') (\<lambda>_.
     bind (set_progress task_id 90) (\<lambda>_.
     bind (call (save_result svc
                   (image_result svc (new_uuid svc) (target_of svc ext) filename found)))
          (\<lambda>saved_id.
     (\<lambda>s. (Inr (), put_entry task_id
               (completed_status
                  (image_result svc (new_uuid svc) (target_of svc ext) filename found)
                  saved_id) s))))))))))"

definition process_image :: "services \<Rightarrow> string \<Rightarrow> string \<Rightarrow> string \<Rightarrow> string \<Rightarrow> unit action" where
  "process_image svc task_id file_path ext filename s =
     (case process_image_try svc task_id file_path ext filename s of
        (Inr u, s') \<Rightarrow> (Inr (), s')
      | (Inl e, s') \<Rightarrow> (Inr (), put_entry task_id (failed_status e) s'))"


section \<open>Properties of the chart detector\<close>

text \<open>
  C1. For every decoded image whose horizontal and vertical edge densities both exceed
  0.05, the geometric classifier answers chart, type \<open>table\<close>, confidence 0.7, whatever
  the colour count and the aspect ratio are.
\<close>

theorem table_rule_overrides:
  assumes "fgt (edge_density (edges_h (gray_array img))) (Fin (5 / 100))"
    and "fgt (edge_density (edges_v (gray_array img))) (Fin (5 / 100))"
  shows "is_chart (analyze_chart_characteristics (Some img)) = True
       \<and> chart_type (analyze_chart_characteristics (Some img)) = ''table''
       \<and> confidence (analyze_chart_characteristics (Some img)) = Fin (7 / 10)"
  using assms by (simp add: analyze_chart_characteristics_def Let_def)

theorem table_rule_overrides_witness:
  "fgt (edge_density (edges_h [[0, 255], [255, 0]])) (Fin (5 / 100))
   \<and> fgt (edge_density (edges_v [[0, 255], [255, 0]])) (Fin (5 / 100))
   \<and> chart_type (analyze_chart_characteristics
        (Some \<lparr>img_width = 2, img_height = 2, unique_colors = 2,
               gray_array = [[0, 255], [255, 0]]\<rparr>)) = ''table''"
proof -
  have h: "fgt (edge_density (edges_h [[0, 255], [255, 0]])) (Fin (5 / 100))"
    by (simp add: edge_density_def absdiff_def int_truediv_def fgt_def flt_def)
  have v: "fgt (edge_density (edges_v [[0, 255], [255, 0]])) (Fin (5 / 100))"
    by (simp add: edge_density_def edges_v_def absdiff_def int_truediv_def fgt_def flt_def)
  show ?thesis
    using h v
      table_rule_overrides [of "\<lparr>img_width = 2, img_height = 2, unique_colors = 2,
                                  gray_array = [[0, 255], [255, 0]]\<rparr>"]
    by simp
qed

text \<open>
  C2. When the object detector is present and its invocation succeeds, \<open>detect\<close> returns
  the geometric classifier's \<open>is_chart\<close>, \<open>chart_type\<close> and \<open>confidence\<close> unchanged;
  the detector's output only fills the \<open>detections\<close> list.
\<close>

theorem detect_uses_geometric_verdict:
  assumes "m file = Inr dets"
  shows "is_chart (detect (Some m) file) = is_chart (analyze_chart_characteristics file)
       \<and> chart_type (detect (Some m) file) = chart_type (analyze_chart_characteristics file)
       \<and> confidence (detect (Some m) file) = confidence (analyze_chart_characteristics file)
       \<and> detections (detect (Some m) file) = Some dets"
  using assms by (simp add: detect_def Let_def)

theorem detect_uses_geometric_verdict_witness:
  "(\<lambda>f. Inr [\<lparr>det_label = ''person'', det_confidence = Fin (9 / 10), det_bbox = []\<rparr>]) None
     = (Inr [\<lparr>det_label = ''person'', det_confidence = Fin (9 / 10), det_bbox = []\<rparr>]
         :: exn + detection list)
   \<and> is_chart (detect
         (Some (\<lambda>f. Inr [\<lparr>det_label = ''person'', det_confidence = Fin (9 / 10),
                           det_bbox = []\<rparr>])) None) = False
   \<and> detections (detect
         (Some (\<lambda>f. Inr [\<lparr>det_label = ''person'', det_confidence = Fin (9 / 10),
                           det_bbox = []\<rparr>])) None)
     = Some [\<lparr>det_label = ''person'', det_confidence = Fin (9 / 10), det_bbox = []\<rparr>]"
  using detect_uses_geometric_verdict
    [of "\<lambda>f. Inr [\<lparr>det_label = ''person'', det_confidence = Fin (9 / 10), det_bbox = []\<rparr>]"
        None "[\<lparr>det_label = ''person'', det_confidence = Fin (9 / 10), det_bbox = []\<rparr>]"]
  by (simp add: analyze_chart_characteristics_def)

text \<open>
  C8. Without an object detector, and when its invocation raises, \<open>detect\<close> returns the
  dictionary of the geometric classifier as it is. That dictionary has the keys
  \<open>is_chart\<close>, \<open>chart_type\<close> and \<open>confidence\<close> only: there is no \<open>detections\<close> entry in
  it, so the result does not carry an empty detection list.
\<close>

theorem fallback_has_no_detections:
  "detect None file = analyze_chart_characteristics file
   \<and> detect (Some (\<lambda>f. Inl e)) file = analyze_chart_characteristics file
   \<and> detections (detect None file) = None
   \<and> detections (detect (Some (\<lambda>f. Inl e)) file) = None
   \<and> detections (detect None None) \<noteq> Some []"
  by (simp add: detect_def fallback_detection_def analyze_chart_characteristics_def Let_def
      split: option.split prod.split)


section \<open>Properties of the text structurer\<close>

lemmas float_eval = py_float_def py_strip_def py_remove_def py_isspace_def is_digit_def
  parse_signed_def parse_abs_def parse_exponent_def ascii_lower_def digits_val_def pow10_def
  Let_def

lemmas pos_eval = x_pos_def y_pos_def axis_pos_def axis_range_def









text \<open>
  C7. Two boxes in one column (equal \<open>x_center\<close>): the x range is zero, the code replaces
  it by 1 and so computes the normalised x position 0 for both boxes, not 0.5. With 0
  neither box is in the centred band, so the top box is not taken as the title and the
  bottom box not as the x-axis label.
\<close>

theorem zero_range_position_is_zero:
  "list_all (\<lambda>b. x_pos two_boxes_one_column b = 0) two_boxes_one_column
   \<and> list_all (\<lambda>b. x_pos two_boxes_one_column b \<noteq> 1 / 2) two_boxes_one_column
   \<and> map (y_pos two_boxes_one_column) two_boxes_one_column = [0, 1]
   \<and> structure_chart_text two_boxes_one_column = empty_structured"
  by (simp add: two_boxes_one_column_def structure_chart_text_def structure_step_def
      pos_eval longer_def is_numeric_def float_eval empty_structured_def)

lemma step_filled: "filled (structure_step boxes acc box) \<le> filled acc + 1"
  by (simp add: filled_def structure_step_def Let_def)

lemma fold_filled: "filled (foldl (structure_step bs) acc xs) \<le> filled acc + length xs"
proof (induction xs arbitrary: acc)
  case Nil
  then show ?case by simp
next
  case (Cons x xs)
  have "filled (foldl (structure_step bs) (structure_step bs acc x) xs)
        \<le> filled (structure_step bs acc x) + length xs" by (rule Cons.IH)
  also have "\<dots> \<le> filled acc + 1 + length xs" using step_filled [of bs acc x] by simp
  finally show ?case by simp
qed

text \<open>
  C9. One pass of the loop changes at most one of the five entries of the result;
  a box that matches none of the five rules changes nothing; and the finished result
  holds at most as many texts as there were boxes.
\<close>

theorem box_contributes_to_at_most_one_field:
  "changed_fields acc (structure_step boxes acc box) \<le> 1
   \<and> (\<not> (y_pos boxes box < 2 / 10 \<and> 3 / 10 < x_pos boxes box \<and> x_pos boxes box < 7 / 10)
      \<and> \<not> (8 / 10 < y_pos boxes box \<and> 3 / 10 < x_pos boxes box \<and> x_pos boxes box < 7 / 10)
      \<and> \<not> (x_pos boxes box < 15 / 100 \<and> 2 / 10 < y_pos boxes box \<and> y_pos boxes box < 8 / 10)
      \<and> \<not> is_numeric (py_strip (box_text box))
      \<and> \<not> (7 / 10 < x_pos boxes box \<or> (7 / 10 < y_pos boxes box \<and> 5 / 10 < x_pos boxes box))
      \<longrightarrow> structure_step boxes acc box = acc)
   \<and> filled (structure_chart_text boxes) \<le> length boxes"
proof -
  have 1: "changed_fields acc (structure_step boxes acc box) \<le> 1"
    by (simp add: changed_fields_def structure_step_def Let_def)
  have 3: "filled (structure_chart_text boxes) \<le> length boxes"
    using fold_filled [of boxes empty_structured boxes]
    by (simp add: structure_chart_text_def filled_def empty_structured_def)
  show ?thesis using 1 3 by (simp add: structure_step_def Let_def)
qed

theorem box_contributes_to_at_most_one_field_witness:
  "x_pos [lone_box] lone_box = 0 \<and> y_pos [lone_box] lone_box = 0
   \<and> \<not> is_numeric (py_strip (box_text lone_box))
   \<and> structure_step [lone_box] empty_structured lone_box = empty_structured"
proof -
  have h: "x_pos [lone_box] lone_box = 0 \<and> y_pos [lone_box] lone_box = 0
           \<and> \<not> is_numeric (py_strip (box_text lone_box))"
    by (simp add: lone_box_def pos_eval is_numeric_def float_eval)
  from h box_contributes_to_at_most_one_field [of empty_structured "[lone_box]" lone_box]
  show ?thesis by simp
qed


section \<open>Properties of the fallback inference\<close>

lemma fle_refl: "a \<noteq> NaN \<Longrightarrow> fle a a"
  by (cases a) (auto simp: fle_def feq_def flt_def)

lemma fle_trans: "fle a b \<Longrightarrow> fle b c \<Longrightarrow> fle a c"
  by (cases a; cases b; cases c) (auto simp: fle_def feq_def flt_def)

lemma not_fgt_fle: "a \<noteq> NaN \<Longrightarrow> b \<noteq> NaN \<Longrightarrow> \<not> fgt a b \<Longrightarrow> fle a b"
  by (cases a; cases b) (auto simp: fle_def feq_def flt_def fgt_def)

lemma fgt_fle: "fgt a b \<Longrightarrow> fle b a"
  by (simp add: fle_def fgt_def)

lemma not_flt_fle: "a \<noteq> NaN \<Longrightarrow> b \<noteq> NaN \<Longrightarrow> \<not> flt a b \<Longrightarrow> fle b a"
  by (cases a; cases b) (auto simp: fle_def feq_def flt_def)

lemma max_fold:
  "NaN \<notin> set xs \<Longrightarrow> m \<noteq> NaN \<Longrightarrow>
   (foldl (\<lambda>m v. if fgt v m then v else m) m xs \<in> insert m (set xs))
   \<and> fle m (foldl (\<lambda>m v. if fgt v m then v else m) m xs)
   \<and> (\<forall>v\<in>set xs. fle v (foldl (\<lambda>m v. if fgt v m then v else m) m xs))"
proof (induction xs arbitrary: m)
  case Nil
  then show ?case by (simp add: fle_refl)
next
  case (Cons x xs)
  let ?m = "if fgt x m then x else m"
  have x: "x \<noteq> NaN" and xs: "NaN \<notin> set xs" using Cons.prems by auto
  have m': "?m \<noteq> NaN" using x Cons.prems by simp
  have mm: "fle m ?m" using fgt_fle [of x m] fle_refl [of m] Cons.prems by simp
  have xm: "fle x ?m" using not_fgt_fle [of x m] fle_refl [of x] x Cons.prems by simp
  from Cons.IH [OF xs m'] mm xm show ?case
    by (auto intro: fle_trans)
qed

lemma min_fold:
  "NaN \<notin> set xs \<Longrightarrow> m \<noteq> NaN \<Longrightarrow>
   (foldl (\<lambda>m v. if flt v m then v else m) m xs \<in> insert m (set xs))
   \<and> fle (foldl (\<lambda>m v. if flt v m then v else m) m xs) m
   \<and> (\<forall>v\<in>set xs. fle (foldl (\<lambda>m v. if flt v m then v else m) m xs) v)"
proof (induction xs arbitrary: m)
  case Nil
  then show ?case by (simp add: fle_refl)
next
  case (Cons x xs)
  let ?m = "if flt x m then x else m"
  have x: "x \<noteq> NaN" and xs: "NaN \<notin> set xs" using Cons.prems by auto
  have m': "?m \<noteq> NaN" using x Cons.prems by simp
  have mm: "fle ?m m" using fle_refl [of m] Cons.prems by (simp add: fle_def)
  have xm: "fle ?m x" using not_flt_fle [of x m] fle_refl [of x] x Cons.prems by simp
  from Cons.IH [OF xs m'] mm xm show ?case
    by (auto intro: fle_trans)
qed

lemma py_max_greatest:
  assumes "xs \<noteq> []" and "NaN \<notin> set xs"
  shows "py_max xs \<in> set xs \<and> (\<forall>v\<in>set xs. fle v (py_max xs))"
proof -
  obtain x ys where xs: "xs = x # ys" using assms(1) by (cases xs) auto
  have "NaN \<notin> set ys" and "x \<noteq> NaN" using assms(2) xs by auto
  from max_fold [OF this] show ?thesis by (auto simp: xs)
qed

lemma py_min_least:
  assumes "xs \<noteq> []" and "NaN \<notin> set xs"
  shows "py_min xs \<in> set xs \<and> (\<forall>v\<in>set xs. fle (py_min xs) v)"
proof -
  obtain x ys where xs: "xs = x # ys" using assms(1) by (cases xs) auto
  have "NaN \<notin> set ys" and "x \<noteq> NaN" using assms(2) xs by auto
  from min_fold [OF this] show ?thesis by (auto simp: xs)
qed

lemma two_nonempty: "2 \<le> length xs \<Longrightarrow> xs \<noteq> []" by auto

lemmas infer_eval = fallback_inference_def numeric_values_def ocr_with_values_def
  List.map_filter_def fgt_def flt_def feq_def fle_def

text \<open>
  C3, as the code has it. With at least two parsed values the trend compares the last
  with the first, and \<open>max_point\<close>, \<open>min_point\<close> hold what \<open>max\<close> and \<open>min\<close> return, each
  with its string as label; if none of the parsed values is NaN these are the greatest
  and the least of the parsed values. With fewer than two parsed values the trend is
  \<open>unknown\<close> and both extrema are unset.
\<close>

theorem fallback_trend_and_extrema:
  "(2 \<le> length (numeric_values (values_list (ocr_structured ocr))) \<longrightarrow>
      (fgt (last (numeric_values (values_list (ocr_structured ocr))))
           (hd (numeric_values (values_list (ocr_structured ocr))))
         \<longrightarrow> trend (fallback_inference ocr) = ''increasing'')
    \<and> (flt (last (numeric_values (values_list (ocr_structured ocr))))
           (hd (numeric_values (values_list (ocr_structured ocr))))
         \<longrightarrow> trend (fallback_inference ocr) = ''decreasing'')
    \<and> (feq (last (numeric_values (values_list (ocr_structured ocr))))
           (hd (numeric_values (values_list (ocr_structured ocr))))
         \<longrightarrow> trend (fallback_inference ocr) = ''stable'')
    \<and> map_option pt_value (max_point (fallback_inference ocr))
         = Some (py_max (numeric_values (values_list (ocr_structured ocr))))
    \<and> map_option pt_label (max_point (fallback_inference ocr))
         = Some (Str_of (py_max (numeric_values (values_list (ocr_structured ocr)))))
    \<and> map_option pt_value (min_point (fallback_inference ocr))
         = Some (py_min (numeric_values (values_list (ocr_structured ocr))))
    \<and> map_option pt_label (min_point (fallback_inference ocr))
         = Some (Str_of (py_min (numeric_values (values_list (ocr_structured ocr)))))
    \<and> (NaN \<notin> set (numeric_values (values_list (ocr_structured ocr))) \<longrightarrow>
         py_max (numeric_values (values_list (ocr_structured ocr)))
           \<in> set (numeric_values (values_list (ocr_structured ocr)))
       \<and> py_min (numeric_values (values_list (ocr_structured ocr)))
           \<in> set (numeric_values (values_list (ocr_structured ocr)))
       \<and> (\<forall>v\<in>set (numeric_values (values_list (ocr_structured ocr))).
             fle v (py_max (numeric_values (values_list (ocr_structured ocr))))
           \<and> fle (py_min (numeric_values (values_list (ocr_structured ocr)))) v)))
   \<and> (length (numeric_values (values_list (ocr_structured ocr))) < 2 \<longrightarrow>
        trend (fallback_inference ocr) = ''unknown''
      \<and> max_point (fallback_inference ocr) = None
      \<and> min_point (fallback_inference ocr) = None)"
proof -
  define nums where "nums = numeric_values (values_list (ocr_structured ocr))"
  have tr: "2 \<le> length nums \<Longrightarrow> trend (fallback_inference ocr) =
      (if fgt (last nums) (hd nums) then ''increasing''
       else if flt (last nums) (hd nums) then ''decreasing'' else ''stable'')"
    by (simp add: fallback_inference_def nums_def Let_def)
  have excl: "\<not> (fgt a b \<and> flt a b)" "feq a b \<Longrightarrow> \<not> fgt a b \<and> \<not> flt a b" for a b
    by (cases a; cases b; auto simp: fgt_def flt_def feq_def)+
  have t1: "2 \<le> length nums \<Longrightarrow> fgt (last nums) (hd nums) \<Longrightarrow> trend (fallback_inference ocr) = ''increasing''"
    using tr by simp
  have t2: "2 \<le> length nums \<Longrightarrow> flt (last nums) (hd nums) \<Longrightarrow> trend (fallback_inference ocr) = ''decreasing''"
    using tr excl(1) [of "last nums" "hd nums"] by auto
  have t3: "2 \<le> length nums \<Longrightarrow> feq (last nums) (hd nums) \<Longrightarrow> trend (fallback_inference ocr) = ''stable''"
    using tr excl(2) [of "last nums" "hd nums"] by auto
  have mx: "2 \<le> length nums \<Longrightarrow> max_point (fallback_inference ocr)
       = Some \<lparr>pt_value = py_max nums, pt_label = Str_of (py_max nums)\<rparr>"
    by (simp add: fallback_inference_def nums_def Let_def)
  have mn: "2 \<le> length nums \<Longrightarrow> min_point (fallback_inference ocr)
       = Some \<lparr>pt_value = py_min nums, pt_label = Str_of (py_min nums)\<rparr>"
    by (simp add: fallback_inference_def nums_def Let_def)
  have ex: "2 \<le> length nums \<Longrightarrow> NaN \<notin> set nums \<Longrightarrow>
       py_max nums \<in> set nums \<and> py_min nums \<in> set nums
       \<and> (\<forall>v\<in>set nums. fle v (py_max nums) \<and> fle (py_min nums) v)"
    using py_max_greatest [of nums] py_min_least [of nums] two_nonempty [of nums] by blast
  have few: "length nums < 2 \<Longrightarrow> trend (fallback_inference ocr) = ''unknown''
      \<and> max_point (fallback_inference ocr) = None \<and> min_point (fallback_inference ocr) = None"
    by (simp add: fallback_inference_def nums_def Let_def)
  show ?thesis
    unfolding nums_def [symmetric]
    using t1 t2 t3 mx mn ex few by simp
qed

lemma nums_10_20: "numeric_values [''10'', ''20''] = [Fin 10, Fin 20]"
  by (simp add: numeric_values_def List.map_filter_def float_eval)

lemma nums_5: "numeric_values [''5''] = [Fin 5]"
  by (simp add: numeric_values_def List.map_filter_def float_eval)

lemma nums_nan_5: "numeric_values [''nan'', ''5''] = [NaN, Fin 5]"
  by (simp add: numeric_values_def List.map_filter_def float_eval)

theorem fallback_trend_and_extrema_witness:
  "2 \<le> length (numeric_values (values_list (ocr_structured (ocr_with_values [''10'', ''20'']))))
   \<and> NaN \<notin> set (numeric_values (values_list (ocr_structured (ocr_with_values [''10'', ''20'']))))
   \<and> length (numeric_values (values_list (ocr_structured (ocr_with_values [''5''])))) < 2
   \<and> trend (fallback_inference (ocr_with_values [''10'', ''20''])) = ''increasing''
   \<and> map_option pt_value (max_point (fallback_inference (ocr_with_values [''10'', ''20'']))) = Some (Fin 20)
   \<and> map_option pt_value (min_point (fallback_inference (ocr_with_values [''10'', ''20'']))) = Some (Fin 10)
   \<and> trend (fallback_inference (ocr_with_values [''5''])) = ''unknown''
   \<and> max_point (fallback_inference (ocr_with_values [''5''])) = None
   \<and> min_point (fallback_inference (ocr_with_values [''5''])) = None"
  using fallback_trend_and_extrema [of "ocr_with_values [''10'', ''20'']"]
    fallback_trend_and_extrema [of "ocr_with_values [''5'']"]
  by (simp add: ocr_with_values_def nums_10_20 nums_5 fgt_def flt_def feq_def fle_def)

text \<open>
  C3, as the claim words it, fails when a value parses to NaN: for the values \<open>"nan"\<close>,
  \<open>"5"\<close> two entries parse, \<open>max\<close> returns NaN (no comparison with NaN is true), and NaN
  is not the numeric maximum: the parsed value 5 is not below it.
\<close>

theorem fallback_extrema_nan_counterexample:
  "numeric_values [''nan'', ''5''] = [NaN, Fin 5]
   \<and> map_option pt_value (max_point (fallback_inference (ocr_with_values [''nan'', ''5''])))
       = Some NaN
   \<and> \<not> fle (Fin 5) NaN
   \<and> trend (fallback_inference (ocr_with_values [''nan'', ''5''])) = ''stable''"
  by (simp add: fallback_inference_def ocr_with_values_def nums_nan_5 fgt_def flt_def feq_def fle_def)

end
